theory Spec2Isabelle
  imports Main "HOL-Library.AList"
begin

section \<open>Python values, dictionaries and exceptions\<close>

text \<open>
  The exceptions the modelled code can raise.  A computation that may raise has the result
  type \<open>error + 'a\<close>, with \<open>Inl\<close> for the exception.
\<close>

datatype error =
    KeyError
  | TypeError
  | ValueError
  | AttributeError
  | IndexError
  | ValidationError
  | CollectionException
  | ApplicationException
  | SchemaError

text \<open>
  The values that flow through documents.  A dictionary is an association list with
  distinct keys in insertion order, as Python's \<open>dict\<close> keeps them.  \<open>PDoc a\<close> is a live
  \<open>Document\<close> instance, named by its address \<open>a\<close> in the object store.  \<open>PGeom t c\<close> is a
  shapely geometry (a \<open>BaseGeometry\<close>) of type \<open>t\<close> with coordinates \<open>c\<close>,
  \<open>PDatetime ts off\<close> a \<open>datetime\<close> at epoch second \<open>ts\<close> with UTC offset \<open>off\<close> minutes
  (\<open>None\<close> for a naive one), \<open>PDate\<close> a plain \<open>date\<close>, \<open>PTz m\<close> a \<open>datetime.timezone\<close>.
  \<open>PReqlGeojson v\<close> is the storage term \<open>r.geojson(v)\<close> and \<open>PReqlTime ts tz iso\<close> a storage
  time value whose \<open>to_epoch_time()\<close>, \<open>timezone()\<close> and \<open>to_iso8601()\<close> give \<open>ts\<close>, \<open>tz\<close>
  and \<open>iso\<close>.  Python floats are not part of this universe.
\<close>

datatype pyval =
    PNone
  | PBool bool
  | PInt int
  | PStr string
  | PList "pyval list"
  | PDict "(string \<times> pyval) list"
  | PDoc nat
  | PGeom string pyval
  | PDatetime int "int option"
  | PDate int int int
  | PTz int
  | PReqlGeojson pyval
  | PReqlTime int string string

type_synonym pydict = "(string \<times> pyval) list"

text \<open>
  Python truthiness, as \<open>if v:\<close>, \<open>not v\<close> and \<open>a and b\<close> test it, for the values that are
  tested in the modelled code (a \<open>Document\<close> would be true when its \<open>obj\<close> has items; a
  document is replaced by its address before it is stored, and none is tested).
\<close>

fun truthy :: "pyval \<Rightarrow> bool" where
  "truthy PNone = False"
| "truthy (PBool b) = b"
| "truthy (PInt i) = (i \<noteq> 0)"
| "truthy (PStr s) = (s \<noteq> [])"
| "truthy (PList xs) = (xs \<noteq> [])"
| "truthy (PDict kvs) = (kvs \<noteq> [])"
| "truthy v = True"

text \<open>\<open>d[k]\<close>, \<open>d[k] = v\<close> and \<open>del d[k]\<close> on a dictionary.\<close>

definition dict_getitem :: "pydict \<Rightarrow> string \<Rightarrow> error + pyval" where
  "dict_getitem d k = (case map_of d k of None \<Rightarrow> Inl KeyError | Some v \<Rightarrow> Inr v)"

definition dict_setitem :: "pydict \<Rightarrow> string \<Rightarrow> pyval \<Rightarrow> pydict" where
  "dict_setitem d k v = AList.update k v d"

definition dict_delitem :: "pydict \<Rightarrow> string \<Rightarrow> error + pydict" where
  "dict_delitem d k = (if k \<in> fst ` set d then Inr (AList.delete k d) else Inl KeyError)"

definition dict_contains :: "pydict \<Rightarrow> string \<Rightarrow> bool" where
  "dict_contains d k = (k \<in> fst ` set d)"

text \<open>
  \<open>v[k]\<close> with a string key on an arbitrary value: only a dictionary can answer; a list or a
  string wants an integer index, and the other values are not subscriptable.
\<close>

fun py_getitem :: "pyval \<Rightarrow> string \<Rightarrow> error + pyval" where
  "py_getitem (PDict d) k = dict_getitem d k"
| "py_getitem v k = Inl TypeError"

text \<open>\<open>del v[k]\<close> with a string key.\<close>

fun py_delitem :: "pyval \<Rightarrow> string \<Rightarrow> error + pyval" where
  "py_delitem (PDict d) k = (case dict_delitem d k of Inl e \<Rightarrow> Inl e | Inr d' \<Rightarrow> Inr (PDict d'))"
| "py_delitem v k = Inl TypeError"

text \<open>\<open>str.lower()\<close> on ASCII letters.\<close>

definition lower_char :: "char \<Rightarrow> char" where
  "lower_char c =
     (if 65 \<le> (of_char c :: nat) \<and> (of_char c :: nat) \<le> 90 then char_of (of_char c + (32::nat)) else c)"

definition str_lower :: "string \<Rightarrow> string" where
  "str_lower s = map lower_char s"

text \<open>\<open>v.lower()\<close>: only a string has the method.\<close>

fun py_lower :: "pyval \<Rightarrow> error + string" where
  "py_lower (PStr s) = Inr (str_lower s)"
| "py_lower v = Inl AttributeError"

text \<open>\<open>s.startswith(p)\<close>.\<close>

definition startswith :: "string \<Rightarrow> string \<Rightarrow> bool" where
  "startswith s p = (take (length p) s = p)"

text \<open>\<open>s.split(sep)\<close> with a one-character separator: never an empty list, \<open>''''\<close> gives \<open>['''']\<close>.\<close>

fun str_split :: "char \<Rightarrow> string \<Rightarrow> string list" where
  "str_split sep [] = [[]]"
| "str_split sep (c # cs) =
     (if c = sep then [] # str_split sep cs
      else (case str_split sep cs of [] \<Rightarrow> [[c]] | w # ws \<Rightarrow> (c # w) # ws))"

text \<open>
  \<open>int(s)\<close> in base ten: surrounding ASCII whitespace is stripped, one sign is allowed, then
  decimal digits with single underscores between them.  Anything else is \<open>ValueError\<close>.
\<close>

definition is_space :: "char \<Rightarrow> bool" where
  "is_space c = ((of_char c :: nat) \<in> {9, 10, 11, 12, 13, 28, 29, 30, 31, 32})"

definition is_digit :: "char \<Rightarrow> bool" where
  "is_digit c = (48 \<le> (of_char c :: nat) \<and> (of_char c :: nat) \<le> 57)"

definition digit_val :: "char \<Rightarrow> int" where
  "digit_val c = int (of_char c) - 48"

definition str_strip :: "string \<Rightarrow> string" where
  "str_strip s = rev (dropWhile is_space (rev (dropWhile is_space s)))"

fun parse_digits :: "int \<Rightarrow> string \<Rightarrow> int option" where
  "parse_digits acc [] = Some acc"
| "parse_digits acc [c] = (if is_digit c then Some (acc * 10 + digit_val c) else None)"
| "parse_digits acc (c # d # ds) =
     (if is_digit c then parse_digits (acc * 10 + digit_val c) (d # ds)
      else if c = CHR ''_'' \<and> is_digit d then parse_digits (acc * 10 + digit_val d) ds
      else None)"

definition parse_unsigned :: "string \<Rightarrow> error + int" where
  "parse_unsigned s =
     (case s of
        [] \<Rightarrow> Inl ValueError
      | d # ds \<Rightarrow>
          if is_digit d
          then (case parse_digits (digit_val d) ds of None \<Rightarrow> Inl ValueError | Some n \<Rightarrow> Inr n)
          else Inl ValueError)"

definition py_int :: "string \<Rightarrow> error + int" where
  "py_int s =
     (case str_strip s of
        [] \<Rightarrow> Inl ValueError
      | c # cs \<Rightarrow>
          if c = CHR ''-'' then (case parse_unsigned cs of Inl e \<Rightarrow> Inl e | Inr n \<Rightarrow> Inr (- n))
          else if c = CHR ''+'' then parse_unsigned cs
          else parse_unsigned (c # cs))"

section \<open>Value handlers (document.py)\<close>

subsection \<open>Geometry\<close>

text \<open>
  \<open>Geometry.__init__(*allowed_types)\<close> keeps the lower-cased names as a set, or \<open>None\<close> when
  no name was given.
\<close>

record Geometry =
  allowed_types :: "string set option"

definition Geometry_init :: "string list \<Rightarrow> Geometry" where
  "Geometry_init names =
     \<lparr> allowed_types = (if names \<noteq> [] then Some (set (map str_lower names)) else None) \<rparr>"

text \<open>
  \<open>Geometry.to_rql_repr\<close>: when the allow-list is set and not empty, the lower-cased
  \<open>value['type']\<close> must be in it; then the value is wrapped as \<open>r.geojson(value)\<close>.
\<close>

definition Geometry_to_rql_repr :: "Geometry \<Rightarrow> pyval \<Rightarrow> error + pyval" where
  "Geometry_to_rql_repr self v =
     (case allowed_types self of
        None \<Rightarrow> Inr (PReqlGeojson v)
      | Some allowed \<Rightarrow>
          if allowed = {} then Inr (PReqlGeojson v)
          else (case py_getitem v ''type'' of
                  Inl e \<Rightarrow> Inl e
                | Inr t \<Rightarrow>
                    (case py_lower t of
                       Inl e \<Rightarrow> Inl e
                     | Inr l \<Rightarrow> if l \<notin> allowed then Inl ValidationError else Inr (PReqlGeojson v))))"

text \<open>
  shapely's \<open>mapping(g)\<close> is the geometry's \<open>__geo_interface__\<close>: its type and its
  coordinates (its member geometries, for a collection).
\<close>

definition mapping :: "string \<Rightarrow> pyval \<Rightarrow> pyval" where
  "mapping t c =
     PDict [(''type'', PStr t),
            (if t = ''GeometryCollection'' then ''geometries'' else ''coordinates'', c)]"

text \<open>\<open>Geometry.to_json_repr\<close>: a geometry object becomes its GeoJSON, anything else is kept.\<close>

fun Geometry_to_json_repr :: "pyval \<Rightarrow> pyval" where
  "Geometry_to_json_repr (PGeom t c) = mapping t c"
| "Geometry_to_json_repr v = v"

text \<open>
  \<open>Geometry.to_python_repr\<close>: deletes the key \<open>$reql_type$\<close> and hands the rest to shapely's
  \<open>shape\<close>, a library function taken as the parameter \<open>shape\<close>.
\<close>

definition Geometry_to_python_repr :: "(pyval \<Rightarrow> error + pyval) \<Rightarrow> pyval \<Rightarrow> error + pyval" where
  "Geometry_to_python_repr shape v =
     (case py_delitem v ''$reql_type$'' of Inl e \<Rightarrow> Inl e | Inr v' \<Rightarrow> shape v')"

subsection \<open>Time\<close>

text \<open>
  \<open>Time.from_rql_tz\<close>: \<open>'Z'\<close> is offset 0; otherwise the sign is read from the first
  character and the two \<open>:\<close>-separated fields are read with \<open>int\<close>.  The unpacking
  \<open>hours, minutes = map(int, ...)\<close> raises \<open>ValueError\<close> unless there are exactly two fields.
\<close>

definition from_rql_tz :: "string \<Rightarrow> error + int" where
  "from_rql_tz tz =
     (if tz = ''Z'' then Inr 0
      else (case tz of
              [] \<Rightarrow> Inl IndexError
            | c # _ \<Rightarrow>
                let posneg = (if c = CHR ''-'' then - 1 else 1 :: int) in
                (case str_split CHR '':'' tz of
                   [h, m] \<Rightarrow>
                     (case py_int h of
                        Inl e \<Rightarrow> Inl e
                      | Inr hours \<Rightarrow>
                          (case py_int m of
                             Inl e \<Rightarrow> Inl e
                           | Inr minutes \<Rightarrow> Inr (posneg * (hours * 60 + minutes))))
                 | _ \<Rightarrow> Inl ValueError)))"

text \<open>
  \<open>datetime.timezone(offset)\<close> accepts a \<open>datetime.timedelta\<close> only.  No value of the
  universe is one (the source builds none), so the call raises \<open>TypeError\<close>.
\<close>

fun py_timezone :: "pyval \<Rightarrow> error + pyval" where
  "py_timezone v = Inl TypeError"

text \<open>\<open>datetime.fromtimestamp(ts, tz=z)\<close>.\<close>

fun py_fromtimestamp :: "int \<Rightarrow> pyval \<Rightarrow> error + pyval" where
  "py_fromtimestamp ts (PTz m) = Inr (PDatetime ts (Some m))"
| "py_fromtimestamp ts PNone = Inr (PDatetime ts None)"
| "py_fromtimestamp ts v = Inl TypeError"

text \<open>
  \<open>Time.to_python_repr\<close>.  \<open>iso8601.parse_date\<close> is a library function, the parameter
  \<open>parse_date\<close>.  A value that is neither a string, a \<open>datetime\<close> nor a storage time falls
  off the end of the method, which returns \<open>None\<close>.
\<close>

fun Time_to_python_repr :: "(string \<Rightarrow> error + pyval) \<Rightarrow> pyval \<Rightarrow> error + pyval" where
  "Time_to_python_repr parse_date (PStr s) = parse_date s"
| "Time_to_python_repr parse_date (PDatetime ts off) = Inr (PDatetime ts off)"
| "Time_to_python_repr parse_date (PReqlTime ts tz isostr) =
     (case from_rql_tz tz of
        Inl e \<Rightarrow> Inl e
      | Inr offset \<Rightarrow>
          (case py_timezone (PInt offset) of
             Inl e \<Rightarrow> Inl e
           | Inr offset_tz \<Rightarrow> py_fromtimestamp ts offset_tz))"
| "Time_to_python_repr parse_date v = Inr PNone"


subsection \<open>The native/wire round trip\<close>



text \<open>
  A stand-in for shapely's \<open>shape\<close>, for running the Geometry handler on concrete values:
  it reads the type and the coordinates and builds the geometry object.
\<close>

definition shape_of_geojson :: "pyval \<Rightarrow> error + pyval" where
  "shape_of_geojson v =
     (case py_getitem v ''type'' of
        Inl e \<Rightarrow> Inl e
      | Inr t \<Rightarrow>
          (case t of
             PStr s \<Rightarrow>
               (case py_getitem v (if s = ''GeometryCollection'' then ''geometries''
                                   else ''coordinates'') of
                  Inl e \<Rightarrow> Inl e
                | Inr c \<Rightarrow> Inr (PGeom s c))
           | _ \<Rightarrow> Inl ValueError))"

section \<open>Schema composition (document/__init__.py, collection/__init__.py)\<close>

text \<open>\<open>d.update(other)\<close>: the items of \<open>other\<close> are stored into \<open>d\<close> one by one, in order.\<close>

definition dict_update :: "pydict \<Rightarrow> pydict \<Rightarrow> pydict" where
  "dict_update d other = fold (\<lambda>kv acc. dict_setitem acc (fst kv) (snd kv)) other d"

text \<open>\<open>p in s\<close> for strings: \<open>p\<close> occurs in \<open>s\<close> as a contiguous piece.\<close>

fun str_contains :: "string \<Rightarrow> string \<Rightarrow> bool" where
  "str_contains p [] = (p = [])"
| "str_contains p (c # cs) = (startswith (c # cs) p \<or> str_contains p cs)"

text \<open>
  \<open>k in v\<close> with a string \<open>k\<close>, on the JSON values a schema is made of: key membership for
  a dictionary, substring for a string, element membership for a list; the other values are
  no containers.
\<close>

fun py_contains :: "pyval \<Rightarrow> string \<Rightarrow> error + bool" where
  "py_contains (PDict d) k = Inr (dict_contains d k)"
| "py_contains (PStr s) k = Inr (str_contains k s)"
| "py_contains (PList xs) k = Inr (PStr k \<in> set xs)"
| "py_contains v k = Inl TypeError"

text \<open>\<open>v[k] = x\<close> with a string key: only a dictionary takes it.\<close>

fun py_setitem :: "pyval \<Rightarrow> string \<Rightarrow> pyval \<Rightarrow> error + pyval" where
  "py_setitem (PDict d) k x = Inr (PDict (dict_setitem d k x))"
| "py_setitem v k x = Inl TypeError"

text \<open>
  What the metaclasses read from a base class: its \<open>definitions\<close> attribute (\<open>None\<close> when
  the base has none), the schema address \<open>base.collection.schema_url\<close> (\<open>None\<close> when the base
  has no \<open>collection\<close>), and its \<open>exposed_methods\<close> (method name and slug).
\<close>

record base_class =
  b_definitions :: "pydict option"
  b_collection :: "string option"
  b_exposed_methods :: "(string \<times> string) list option"

text \<open>
  The class body (\<open>attrs\<close>, \<open>nmspc\<close>) of a document class: each entry is \<open>None\<close> when the
  body does not declare it.  \<open>a_exposed\<close> lists the methods of the body that carry the
  \<open>exposed\<close> mark, with their slugs.
\<close>

record class_attrs =
  a_schema :: "pydict option"
  a_definitions :: "pydict option"
  a_title :: "pyval option"
  a_template :: "pyval option"
  a_doc :: "string option"
  a_exposed :: "(string \<times> string) list"

record document_class =
  dc_definitions :: pydict
  dc_title :: pyval
  dc_schema :: pydict
  dc_exposed_methods :: "(string \<times> string) list"
  dc_defaults :: pydict

definition default_schema :: pydict where
  "default_schema = [(''type'', PStr ''object''), (''properties'', PDict [])]"

text \<open>
  One round of the loop \<open>for base in bases\<close> of \<open>DocumentMetaclass.__new__\<close>, on the pair
  of \<open>definitions\<close> and \<open>schema\<close>.  \<open>schema['allOf'].append\<close> needs a list.
\<close>

definition inherit_base :: "base_class \<Rightarrow> pydict \<times> pydict \<Rightarrow> error + (pydict \<times> pydict)" where
  "inherit_base base ds =
     (let definitions =
            (case b_definitions base of
               None \<Rightarrow> fst ds
             | Some d \<Rightarrow> if d \<noteq> [] then dict_update (fst ds) d else fst ds)
      in case b_collection base of
           None \<Rightarrow> Inr (definitions, snd ds)
         | Some url \<Rightarrow>
             (let schema = (if \<not> dict_contains (snd ds) ''allOf''
                            then dict_setitem (snd ds) ''allOf'' (PList []) else snd ds)
              in case map_of schema ''allOf'' of
                   Some (PList xs) \<Rightarrow>
                     Inr (definitions,
                          dict_setitem schema ''allOf'' (PList (xs @ [PDict [(''$ref'', PStr url)]])))
                 | _ \<Rightarrow> Inl AttributeError))"

fun inherit_bases :: "base_class list \<Rightarrow> pydict \<times> pydict \<Rightarrow> error + (pydict \<times> pydict)" where
  "inherit_bases [] ds = Inr ds"
| "inherit_bases (base # bases) ds =
     (case inherit_base base ds of Inl e \<Rightarrow> Inl e | Inr ds' \<Rightarrow> inherit_bases bases ds')"

text \<open>
  \<open>DocumentMetaclass.__new__\<close>: returns the \<open>definitions\<close>, \<open>title\<close> and \<open>schema\<close> entries it
  leaves in \<open>attrs\<close>.  \<open>split_camelcase\<close> (of \<open>sondra.utils\<close>) is a parameter.
\<close>

definition DocumentMetaclass_new ::
  "(string \<Rightarrow> string) \<Rightarrow> string \<Rightarrow> base_class list \<Rightarrow> class_attrs
     \<Rightarrow> error + (pydict \<times> pyval \<times> pydict)" where
  "DocumentMetaclass_new split_camelcase name bases attrs =
     (case inherit_bases bases
             ([], case a_schema attrs of Some s \<Rightarrow> s | None \<Rightarrow> default_schema) of
        Inl e \<Rightarrow> Inl e
      | Inr (definitions, schema) \<Rightarrow>
          (let attrs_definitions =
                 (case a_definitions attrs of
                    Some own \<Rightarrow> dict_update own definitions
                  | None \<Rightarrow> definitions);
               title =
                 (if a_title attrs = None \<or> a_title attrs = Some PNone
                  then (case map_of schema ''title'' of
                          Some t \<Rightarrow> t
                        | None \<Rightarrow> PStr (split_camelcase name))
                  else the (a_title attrs))
           in Inr (attrs_definitions, title, dict_setitem schema ''title'' title)))"

text \<open>
  The dictionary comprehension that computes \<open>cls.defaults\<close>: for each property \<open>k\<close> of the
  schema with \<open>'default' in properties[k]\<close>, the entry \<open>k: properties[k]['default']\<close>.  A
  property that is a string or a list can pass the \<open>in\<close> test, and then cannot be indexed
  with \<open>'default'\<close>.
\<close>

fun prop_default :: "pyval \<Rightarrow> error + pyval option" where
  "prop_default (PDict p) = Inr (map_of p ''default'')"
| "prop_default (PStr s) = (if str_contains ''default'' s then Inl TypeError else Inr None)"
| "prop_default (PList xs) = (if PStr ''default'' \<in> set xs then Inl TypeError else Inr None)"
| "prop_default v = Inl TypeError"

fun collect_defaults :: "pydict \<Rightarrow> error + pydict" where
  "collect_defaults [] = Inr []"
| "collect_defaults ((k, p) # rest) =
     (case prop_default p of
        Inl e \<Rightarrow> Inl e
      | Inr d \<Rightarrow>
          (case collect_defaults rest of
             Inl e \<Rightarrow> Inl e
           | Inr ds \<Rightarrow> Inr (case d of None \<Rightarrow> ds | Some v \<Rightarrow> (k, v) # ds)))"

text \<open>
  \<open>schema['properties']\<close> is iterated, so it has to be a dictionary; an empty list or string
  gives no defaults, and any other value makes the comprehension raise (the model reports
  \<open>TypeError\<close> there).
\<close>

definition class_defaults :: "pydict \<Rightarrow> error + pydict" where
  "class_defaults schema =
     (case map_of schema ''properties'' of
        None \<Rightarrow> Inl KeyError
      | Some (PDict props) \<Rightarrow> collect_defaults props
      | Some (PList []) \<Rightarrow> Inr []
      | Some (PStr []) \<Rightarrow> Inr []
      | Some _ \<Rightarrow> Inl TypeError)"

text \<open>
  The exposed methods of a class: those of the bases, in order, then those of the class
  body.
\<close>

definition merge_exposed ::
  "(string \<times> string) list option list \<Rightarrow> (string \<times> string) list \<Rightarrow> (string \<times> string) list" where
  "merge_exposed inherited own =
     fold (\<lambda>kv acc. AList.update (fst kv) (snd kv) acc) own
       (fold (\<lambda>m acc. case m of
                         None \<Rightarrow> acc
                       | Some ms \<Rightarrow> fold (\<lambda>kv acc'. AList.update (fst kv) (snd kv) acc') ms acc)
          inherited [])"

text \<open>
  \<open>DocumentMetaclass.__init__\<close>, on what \<open>__new__\<close> left: the schema gets its description,
  the method slugs, the composed definitions and the template, and the defaults are read
  off the properties.
\<close>

definition DocumentMetaclass_init ::
  "base_class list \<Rightarrow> class_attrs \<Rightarrow> pydict \<times> pyval \<times> pydict \<Rightarrow> error + document_class" where
  "DocumentMetaclass_init bases nmspc new =
     (let definitions = fst new;
          title = fst (snd new);
          schema0 = snd (snd new);
          exposed_methods = merge_exposed (map b_exposed_methods bases) (a_exposed nmspc);
          schema1 = (case a_doc nmspc of
                       Some doc \<Rightarrow>
                         if \<not> dict_contains schema0 ''description'' \<and> doc \<noteq> []
                         then dict_setitem schema0 ''description'' (PStr doc) else schema0
                     | None \<Rightarrow> schema0);
          schema2 = dict_setitem schema1 ''methods'' (PList (map (\<lambda>m. PStr (snd m)) exposed_methods));
          schema3 = dict_setitem schema2 ''definitions'' (PDict definitions);
          schema4 = dict_setitem schema3 ''template''
                      (case a_template nmspc of Some t \<Rightarrow> t | None \<Rightarrow> PStr ''{id}'')
      in case class_defaults schema4 of
           Inl e \<Rightarrow> Inl e
         | Inr defaults \<Rightarrow>
             Inr \<lparr> dc_definitions = definitions, dc_title = title, dc_schema = schema4,
                   dc_exposed_methods = exposed_methods, dc_defaults = defaults \<rparr>)"

text \<open>Creating a document class: \<open>__new__\<close>, then \<open>__init__\<close>.\<close>

definition DocumentMetaclass ::
  "(string \<Rightarrow> string) \<Rightarrow> string \<Rightarrow> base_class list \<Rightarrow> class_attrs \<Rightarrow> error + document_class" where
  "DocumentMetaclass split_camelcase name bases attrs =
     (case DocumentMetaclass_new split_camelcase name bases attrs of
        Inl e \<Rightarrow> Inl e
      | Inr new \<Rightarrow> DocumentMetaclass_init bases attrs new)"

text \<open>
  A document class seen as a base of another one.  \<open>coll\<close> is the schema address of its
  class attribute \<open>collection\<close>, when it has one.
\<close>

definition as_base :: "document_class \<Rightarrow> string option \<Rightarrow> base_class" where
  "as_base cls coll =
     \<lparr> b_definitions = Some (dc_definitions cls), b_collection = coll,
       b_exposed_methods = Some (dc_exposed_methods cls) \<rparr>"

subsection \<open>Collection classes (collection/__init__.py)\<close>

text \<open>
  The class body of a collection class, and the class attributes it finds on its bases when
  the body does not declare them.  \<open>Collection\<close> itself declares \<open>primary_key = "id"\<close>,
  \<open>schema = None\<close> and \<open>document_class = Document\<close>.  A document class entry of \<open>None\<close> stands
  for \<open>Document\<close> itself (or a false value): the metaclass treats both alike.
\<close>

record collection_attrs =
  ca_definitions :: "pydict option"
  ca_primary_key :: "pyval option"
  ca_document_class :: "document_class option option"
  ca_exposed :: "(string \<times> string) list"

record inherited_attrs =
  inh_primary_key :: pyval
  inh_schema :: "pydict option"
  inh_document_class :: "document_class option"

definition Collection_attrs :: inherited_attrs where
  "Collection_attrs =
     \<lparr> inh_primary_key = PStr ''id'', inh_schema = None, inh_document_class = None \<rparr>"

record collection_class =
  cc_abstract :: bool
  cc_schema :: "pydict option"
  cc_primary_key :: pyval
  cc_definitions :: pydict
  cc_exposed_methods :: "(string \<times> string) list"

text \<open>
  \<open>CollectionMetaclass.__new__\<close>: the definitions of the bases are gathered, then written
  over the ones of the class body.  (A \<open>document_class\<close> given by name is resolved to the
  class here; the model starts from the resolved class.)
\<close>

definition CollectionMetaclass_new :: "base_class list \<Rightarrow> collection_attrs \<Rightarrow> pydict" where
  "CollectionMetaclass_new bases attrs =
     (let definitions =
            fold (\<lambda>base acc. case b_definitions base of
                                None \<Rightarrow> acc
                              | Some d \<Rightarrow> if d \<noteq> [] then dict_update acc d else acc)
              bases []
      in case ca_definitions attrs of
           Some own \<Rightarrow> dict_update own definitions
         | None \<Rightarrow> definitions)"

definition id_property :: pyval where
  "id_property =
     PDict [(''type'', PStr ''string''), (''description'', PStr ''The primary key.''),
            (''title'', PStr ''ID'')]"

text \<open>
  \<open>CollectionMetaclass.__init__\<close>.  \<open>check_schema\<close> stands for the meta-schema check of
  \<open>jsonschema.Draft4Validator\<close>, which raises when it fails.
\<close>

definition CollectionMetaclass_init ::
  "(pydict \<Rightarrow> bool) \<Rightarrow> base_class list \<Rightarrow> inherited_attrs \<Rightarrow> collection_attrs \<Rightarrow> pydict
     \<Rightarrow> error + collection_class" where
  "CollectionMetaclass_init check_schema bases inh nmspc definitions =
     (let exposed_methods = merge_exposed (map b_exposed_methods bases) (ca_exposed nmspc);
          primary_key = (case ca_primary_key nmspc of Some v \<Rightarrow> v | None \<Rightarrow> inh_primary_key inh);
          document_class =
            (case ca_document_class nmspc of Some c \<Rightarrow> c | None \<Rightarrow> inh_document_class inh)
      in case document_class of
           None \<Rightarrow>
             Inr \<lparr> cc_abstract = True, cc_schema = inh_schema inh, cc_primary_key = primary_key,
                   cc_definitions = definitions, cc_exposed_methods = exposed_methods \<rparr>
         | Some dc \<Rightarrow>
             (case dict_getitem (dc_schema dc) ''properties'' of
                Inl e \<Rightarrow> Inl e
              | Inr props \<Rightarrow>
                  (case py_contains props ''id'' of
                     Inl e \<Rightarrow> Inl e
                   | Inr has_id \<Rightarrow>
                       if has_id then Inl CollectionException
                       else (case (if \<not> truthy primary_key
                                   then py_setitem props ''id'' id_property else Inr props) of
                               Inl e \<Rightarrow> Inl e
                             | Inr props' \<Rightarrow>
                                 (let schema1 = dict_setitem (dc_schema dc) ''properties'' props';
                                      schema2 = dict_setitem schema1 ''methods''
                                                  (PList (map (\<lambda>m. PStr (snd m)) exposed_methods));
                                      schema3 = dict_setitem schema2 ''documentMethods''
                                                  (PList (map (\<lambda>m. PStr (snd m))
                                                            (dc_exposed_methods dc)))
                                  in if \<not> check_schema schema3 then Inl SchemaError
                                     else Inr \<lparr> cc_abstract = False, cc_schema = Some schema3,
                                                cc_primary_key = primary_key,
                                                cc_definitions = definitions,
                                                cc_exposed_methods = exposed_methods \<rparr>)))))"

definition CollectionMetaclass ::
  "(pydict \<Rightarrow> bool) \<Rightarrow> base_class list \<Rightarrow> inherited_attrs \<Rightarrow> collection_attrs
     \<Rightarrow> error + collection_class" where
  "CollectionMetaclass check_schema bases inh attrs =
     CollectionMetaclass_init check_schema bases inh attrs (CollectionMetaclass_new bases attrs)"

subsection \<open>Collection classes of the older module (document.py)\<close>

text \<open>
  \<open>CollectionMetaclass.__init__\<close> of document.py.  The document class is a plain class
  with a \<open>schema\<close> attribute; \<open>doc\<close> is the docstring of the collection class;
  \<open>application\<close> is the registry of the application class the collection names (\<open>None\<close> when
  it names none), in which \<open>register_collection\<close> enters the class under its slug after
  looking for its name.
\<close>

definition register_collection ::
  "(string \<times> string) list \<Rightarrow> string \<Rightarrow> string \<Rightarrow> error + (string \<times> string) list" where
  "register_collection registry name slug =
     (if name \<notin> fst ` set registry then Inr (AList.update slug name registry)
      else Inl ApplicationException)"

definition CollectionMetaclass_init_old ::
  "(pydict \<Rightarrow> bool) \<Rightarrow> string \<Rightarrow> string \<Rightarrow> pydict \<Rightarrow> string option \<Rightarrow> pyval
     \<Rightarrow> (string \<times> string) list option
     \<Rightarrow> error + (pydict \<times> (string \<times> string) list)" where
  "CollectionMetaclass_init_old check_schema name slug document_schema doc primary_key application =
     (let schema1 =
            (if \<not> dict_contains document_schema ''description''
             then dict_setitem document_schema ''description''
                    (PStr (case doc of
                             Some d \<Rightarrow> if d \<noteq> [] then d else ''No description provided''
                           | None \<Rightarrow> ''No description provided''))
             else document_schema)
      in case dict_getitem schema1 ''properties'' of
           Inl e \<Rightarrow> Inl e
         | Inr props \<Rightarrow>
             (case py_contains props ''id'' of
                Inl e \<Rightarrow> Inl e
              | Inr has_id \<Rightarrow>
                  if has_id then Inl CollectionException
                  else (case (if \<not> truthy primary_key
                              then py_setitem props ''id'' (PDict [(''type'', PStr ''string'')])
                              else Inr props) of
                          Inl e \<Rightarrow> Inl e
                        | Inr props' \<Rightarrow>
                            (let schema2 = dict_setitem schema1 ''properties'' props'
                             in if \<not> check_schema schema2 then Inl SchemaError
                                else (case application of
                                        None \<Rightarrow> Inl CollectionException
                                      | Some registry \<Rightarrow>
                                          (case register_collection registry name slug of
                                             Inl e \<Rightarrow> Inl e
                                           | Inr registry' \<Rightarrow> Inr (schema2, registry')))))))"

section \<open>Documents and collections at run time (document/__init__.py, collection/__init__.py)\<close>

text \<open>
  A value handler (\<open>ValueHandler\<close>) is its three conversions, a document processor
  (\<open>DocumentProcessor\<close>) its two methods; \<open>run\<close> changes the dictionary it is given.
\<close>

record handler =
  h_to_rql_repr :: "pyval \<Rightarrow> error + pyval"
  h_to_json_repr :: "pyval \<Rightarrow> error + pyval"
  h_to_python_repr :: "pyval \<Rightarrow> error + pyval"

definition ValueHandler :: handler where
  "ValueHandler = \<lparr> h_to_rql_repr = Inr, h_to_json_repr = Inr, h_to_python_repr = Inr \<rparr>"

definition Geometry_handler :: "(pyval \<Rightarrow> error + pyval) \<Rightarrow> Geometry \<Rightarrow> handler" where
  "Geometry_handler shape self =
     \<lparr> h_to_rql_repr = Geometry_to_rql_repr self,
       h_to_json_repr = (\<lambda>v. Inr (Geometry_to_json_repr v)),
       h_to_python_repr = Geometry_to_python_repr shape \<rparr>"

record processor =
  is_necessary :: "string \<Rightarrow> bool"
  run :: "pydict \<Rightarrow> error + pydict"

text \<open>
  A collection instance, as far as documents use it: the table name, the address, the
  primary key, the special properties of its document class with their handlers, the
  outcome of \<open>jsonschema.validate(value, self.schema)\<close> as a predicate, and the \<open>validator\<close>
  hook, whose answer is the exception it raises, if any (its return value is dropped).
\<close>

record collection =
  c_name :: string
  c_url :: string
  c_primary_key :: string
  c_specials :: "(string \<times> handler) list"
  c_schema_valid :: "pydict \<Rightarrow> bool"
  c_validator :: "pydict \<Rightarrow> error option"

text \<open>
  A \<open>Document\<close> instance: its collection, the \<open>defaults\<close> and \<open>processors\<close> of its class,
  and the instance attributes \<open>_saved\<close>, \<open>_url\<close> and \<open>obj\<close>.
\<close>

record document =
  d_collection :: collection
  d_defaults :: pydict
  d_processors :: "processor list"
  d_saved :: bool
  d_url :: "string option"
  d_obj :: pydict

text \<open>
  The state: the document objects by address, the next free address, and the rows of each
  table of the store, in the order they were inserted.
\<close>

record state =
  docs :: "nat \<Rightarrow> document"
  next_doc :: nat
  tables :: "string \<Rightarrow> pydict list"

definition set_obj :: "state \<Rightarrow> nat \<Rightarrow> pydict \<Rightarrow> state" where
  "set_obj s a obj = s\<lparr>docs := (docs s)(a := (docs s a)\<lparr>d_obj := obj\<rparr>)\<rparr>"

definition set_saved :: "state \<Rightarrow> nat \<Rightarrow> bool \<Rightarrow> state" where
  "set_saved s a b = s\<lparr>docs := (docs s)(a := (docs s a)\<lparr>d_saved := b\<rparr>)\<rparr>"

definition set_url :: "state \<Rightarrow> nat \<Rightarrow> string option \<Rightarrow> state" where
  "set_url s a u = s\<lparr>docs := (docs s)(a := (docs s a)\<lparr>d_url := u\<rparr>)\<rparr>"

text \<open>The property \<open>Document.id\<close>: the primary key value of a saved document, else \<open>None\<close>.\<close>

definition Document_id :: "state \<Rightarrow> nat \<Rightarrow> error + pyval" where
  "Document_id s a =
     (if d_saved (docs s a)
      then dict_getitem (d_obj (docs s a)) (c_primary_key (d_collection (docs s a)))
      else Inr PNone)"

text \<open>
  \<open>Collection.__len__\<close> counts the rows of the table.  A collection has no \<open>__bool__\<close>, so
  \<open>if self.collection:\<close> asks for this length: a collection with an empty table is false.
\<close>

definition Collection_len :: "state \<Rightarrow> collection \<Rightarrow> nat" where
  "Collection_len s self = length (tables s (c_name self))"

text \<open>
  The property \<open>Document.url\<close>: the cached \<open>_url\<close> when it is set and not empty; else, when
  the collection is true, its address, \<open>"/"\<close> and the slug, which is the \<open>id\<close> (adding a
  non-string to a string raises \<open>TypeError\<close>); else the slug alone.
\<close>

definition Document_url :: "state \<Rightarrow> nat \<Rightarrow> error + pyval" where
  "Document_url s a =
     (let fallback =
            (if Collection_len s (d_collection (docs s a)) \<noteq> 0
             then (case Document_id s a of
                     Inl e \<Rightarrow> Inl e
                   | Inr (PStr slug) \<Rightarrow>
                       Inr (PStr (c_url (d_collection (docs s a)) @ ''/'' @ slug))
                   | Inr _ \<Rightarrow> Inl TypeError)
             else Document_id s a)
      in case d_url (docs s a) of
           Some u \<Rightarrow> if u \<noteq> [] then Inr (PStr u) else fallback
         | None \<Rightarrow> fallback)"

text \<open>
  \<open>Collection._to_json_repr\<close> and \<open>Collection._to_rql_repr\<close> (\<open>conv\<close> picks the conversion):
  each special property present in \<open>doc\<close> is replaced in place.  When a handler raises, the
  dictionary keeps the replacements made before; both are returned.
\<close>

fun apply_specials ::
  "(handler \<Rightarrow> pyval \<Rightarrow> error + pyval) \<Rightarrow> (string \<times> handler) list \<Rightarrow> pydict
     \<Rightarrow> pydict \<times> error option" where
  "apply_specials conv [] doc = (doc, None)"
| "apply_specials conv ((property, special) # rest) doc =
     (case map_of doc property of
        None \<Rightarrow> apply_specials conv rest doc
      | Some v \<Rightarrow>
          (case conv special v of
             Inl e \<Rightarrow> (doc, Some e)
           | Inr v' \<Rightarrow> apply_specials conv rest (dict_setitem doc property v')))"

text \<open>
  What \<open>Collection.save\<close> can be given for one element of \<open>docs\<close>: a \<open>Document\<close> instance, the
  \<open>obj\<close> dictionary of a document (this is what \<open>Document.save\<close> passes: the dictionary
  itself, not a copy), or a dictionary of the caller.
\<close>

datatype save_arg = ADocument nat | AObjOf nat | ADict pydict

text \<open>
  One round of the loop of \<open>Collection.save\<close>.  A \<open>Document\<close> is marked saved and a copy of
  its \<open>obj\<close> is worked on; a dictionary is worked on in place, so for \<open>AObjOf a\<close> each
  conversion is written back to the document.
\<close>

definition write_back :: "state \<Rightarrow> save_arg \<Rightarrow> pydict \<Rightarrow> state" where
  "write_back s arg v = (case arg of AObjOf a \<Rightarrow> set_obj s a v | _ \<Rightarrow> s)"

definition save_value :: "collection \<Rightarrow> state \<Rightarrow> save_arg \<Rightarrow> (error + pydict) \<times> state" where
  "save_value self s arg =
     (let s1 = (case arg of ADocument a \<Rightarrow> set_saved s a True | _ \<Rightarrow> s);
          value = (case arg of
                     ADocument a \<Rightarrow> d_obj (docs s a)
                   | AObjOf a \<Rightarrow> d_obj (docs s a)
                   | ADict v \<Rightarrow> v);
          j = apply_specials h_to_json_repr (c_specials self) value;
          s2 = write_back s1 arg (fst j)
      in case snd j of
           Some e \<Rightarrow> (Inl e, s2)
         | None \<Rightarrow>
             if \<not> c_schema_valid self (fst j) then (Inl ValidationError, s2)
             else (case c_validator self (fst j) of
                     Some e \<Rightarrow> (Inl e, s2)
                   | None \<Rightarrow>
                       (let q = apply_specials h_to_rql_repr (c_specials self) (fst j);
                            s3 = write_back s2 arg (fst q)
                        in case snd q of
                             Some e \<Rightarrow> (Inl e, s3)
                           | None \<Rightarrow> (Inr (fst q), s3))))"

fun save_values ::
  "collection \<Rightarrow> state \<Rightarrow> save_arg list \<Rightarrow> pydict list \<Rightarrow> (error + pydict list) \<times> state" where
  "save_values self s [] values = (Inr values, s)"
| "save_values self s (arg # args) values =
     (case save_value self s arg of
        (Inl e, s') \<Rightarrow> (Inl e, s')
      | (Inr v, s') \<Rightarrow> save_values self s' args (values @ [v]))"

text \<open>
  \<open>Collection.save\<close>: every element is converted and validated, then all values are
  inserted into the table in one store write.  The answer of the store is reduced to the
  count of inserted rows.
\<close>

definition Collection_save :: "collection \<Rightarrow> state \<Rightarrow> save_arg list \<Rightarrow> (error + pyval) \<times> state" where
  "Collection_save self s docs_arg =
     (case save_values self s docs_arg [] of
        (Inl e, s') \<Rightarrow> (Inl e, s')
      | (Inr values, s') \<Rightarrow>
          (Inr (PDict [(''inserted'', PInt (int (length values)))]),
           s'\<lparr>tables := (tables s')(c_name self := tables s' (c_name self) @ values)\<rparr>))"

text \<open>\<open>Document.save\<close>: \<open>self.collection.save(self.obj)\<close>.\<close>

definition Document_save :: "state \<Rightarrow> nat \<Rightarrow> (error + pyval) \<times> state" where
  "Document_save s a = Collection_save (d_collection (docs s a)) s [AObjOf a]"

text \<open>
  \<open>_reference\<close>: a document without a true \<open>id\<close> is saved first, then its address stands
  for it; any other value is kept.
\<close>

definition reference :: "state \<Rightarrow> pyval \<Rightarrow> (error + pyval) \<times> state" where
  "reference s v =
     (case v of
        PDoc a \<Rightarrow>
          (case Document_id s a of
             Inl e \<Rightarrow> (Inl e, s)
           | Inr i \<Rightarrow>
               if \<not> truthy i
               then (case Document_save s a of
                       (Inl e, s') \<Rightarrow> (Inl e, s')
                     | (Inr r, s') \<Rightarrow> (Document_url s' a, s'))
               else (Document_url s a, s))
      | _ \<Rightarrow> (Inr v, s))"

text \<open>
  Modelled from the spec: \<open>sondra.utils.mapjson\<close>, which is not among the sources.  The
  specification has it apply the function to a value that is no container, and map itself
  over the elements of a sequence and over the values of a mapping, keeping the structure.
  The function may change the state, so the state is passed through in order.
\<close>

fun mapjson ::
      "(state \<Rightarrow> pyval \<Rightarrow> (error + pyval) \<times> state) \<Rightarrow> state \<Rightarrow> pyval \<Rightarrow> (error + pyval) \<times> state"
  and mapjson_list ::
      "(state \<Rightarrow> pyval \<Rightarrow> (error + pyval) \<times> state) \<Rightarrow> state \<Rightarrow> pyval list
         \<Rightarrow> (error + pyval list) \<times> state"
  and mapjson_dict ::
      "(state \<Rightarrow> pyval \<Rightarrow> (error + pyval) \<times> state) \<Rightarrow> state \<Rightarrow> pydict
         \<Rightarrow> (error + pydict) \<times> state" where
  "mapjson f s (PDict d) =
     (case mapjson_dict f s d of
        (Inl e, s') \<Rightarrow> (Inl e, s')
      | (Inr d', s') \<Rightarrow> (Inr (PDict d'), s'))"
| "mapjson f s (PList xs) =
     (case mapjson_list f s xs of
        (Inl e, s') \<Rightarrow> (Inl e, s')
      | (Inr ys, s') \<Rightarrow> (Inr (PList ys), s'))"
| "mapjson f s v = f s v"
| "mapjson_list f s [] = (Inr [], s)"
| "mapjson_list f s (x # xs) =
     (case mapjson f s x of
        (Inl e, s') \<Rightarrow> (Inl e, s')
      | (Inr y, s') \<Rightarrow>
          (case mapjson_list f s' xs of
             (Inl e, s'') \<Rightarrow> (Inl e, s'')
           | (Inr ys, s'') \<Rightarrow> (Inr (y # ys), s'')))"
| "mapjson_dict f s [] = (Inr [], s)"
| "mapjson_dict f s ((k, x) # kxs) =
     (case mapjson f s x of
        (Inl e, s') \<Rightarrow> (Inl e, s')
      | (Inr y, s') \<Rightarrow>
          (case mapjson_dict f s' kxs of
             (Inl e, s'') \<Rightarrow> (Inl e, s'')
           | (Inr kys, s'') \<Rightarrow> (Inr ((k, y) # kys), s'')))"

text \<open>The loop over \<open>self.processors\<close> after a property was set.\<close>

fun run_processors :: "processor list \<Rightarrow> string \<Rightarrow> pydict \<Rightarrow> pydict \<times> error option" where
  "run_processors [] key obj = (obj, None)"
| "run_processors (p # ps) key obj =
     (if is_necessary p key
      then (case run p obj of
              Inl e \<Rightarrow> (obj, Some e)
            | Inr obj' \<Rightarrow> run_processors ps key obj')
      else run_processors ps key obj)"

text \<open>
  \<open>Document.__setitem__\<close>: the value is passed through \<open>_reference\<close>, a list or dictionary
  also through \<open>mapjson(_reference, value)\<close>; then it is stored and the processors run.
\<close>

definition Document_setitem :: "state \<Rightarrow> nat \<Rightarrow> string \<Rightarrow> pyval \<Rightarrow> (error + unit) \<times> state" where
  "Document_setitem s a key v =
     (case reference s v of
        (Inl e, s1) \<Rightarrow> (Inl e, s1)
      | (Inr v1, s1) \<Rightarrow>
          (case (case v1 of
                   PList xs \<Rightarrow> mapjson reference s1 v1
                 | PDict d \<Rightarrow> mapjson reference s1 v1
                 | _ \<Rightarrow> (Inr v1, s1)) of
             (Inl e, s2) \<Rightarrow> (Inl e, s2)
           | (Inr v2, s2) \<Rightarrow>
               (let r = run_processors (d_processors (docs s2 a)) key
                          (dict_setitem (d_obj (docs s2 a)) key v2)
                in case snd r of
                     Some e \<Rightarrow> (Inl e, set_obj s2 a (fst r))
                   | None \<Rightarrow> (Inr (), set_obj s2 a (fst r)))))"

fun setitems :: "state \<Rightarrow> nat \<Rightarrow> pydict \<Rightarrow> (error + unit) \<times> state" where
  "setitems s a [] = (Inr (), s)"
| "setitems s a ((k, v) # kvs) =
     (case Document_setitem s a k v of
        (Inl e, s') \<Rightarrow> (Inl e, s')
      | (Inr u, s') \<Rightarrow> setitems s' a kvs)"

text \<open>
  \<open>Document.__init__(obj, collection, from_db)\<close>: the new object gets the next address.
  When \<open>obj\<close> has the primary key, \<open>_url\<close> is \<open>'/'.join((collection.url, _reference(key)))\<close>,
  which needs a string; then every item of \<open>obj\<close> is set through \<open>__setitem__\<close>.  The
  class attributes \<open>defaults\<close> and \<open>processors\<close> of the document class are given.
\<close>

definition Document_init ::
  "state \<Rightarrow> pydict \<Rightarrow> collection \<Rightarrow> pydict \<Rightarrow> processor list \<Rightarrow> bool \<Rightarrow> (error + nat) \<times> state" where
  "Document_init s obj coll defaults processors from_db =
     (let a = next_doc s;
          s0 = s\<lparr>docs := (docs s)(a := \<lparr> d_collection = coll, d_defaults = defaults,
                                           d_processors = processors, d_saved = from_db,
                                           d_url = None, d_obj = [] \<rparr>),
                 next_doc := Suc a\<rparr>;
          u = (case map_of obj (c_primary_key coll) of
                 None \<Rightarrow> (Inr (), s0)
               | Some key \<Rightarrow>
                   (case reference s0 key of
                      (Inl e, s1) \<Rightarrow> (Inl e, s1)
                    | (Inr (PStr k), s1) \<Rightarrow> (Inr (), set_url s1 a (Some (c_url coll @ ''/'' @ k)))
                    | (Inr _, s1) \<Rightarrow> (Inl TypeError, s1)))
      in case u of
           (Inl e, s1) \<Rightarrow> (Inl e, s1)
         | (Inr _, s1) \<Rightarrow>
             (case setitems s1 a obj of
                (Inl e, s2) \<Rightarrow> (Inl e, s2)
              | (Inr _, s2) \<Rightarrow> (Inr a, s2)))"

text \<open>
  \<open>Document.__getitem__\<close>: the stored value, else the default of the class, else
  \<open>KeyError\<close>.
\<close>

definition Document_getitem :: "state \<Rightarrow> nat \<Rightarrow> string \<Rightarrow> error + pyval" where
  "Document_getitem s a key =
     (if dict_contains (d_obj (docs s a)) key then dict_getitem (d_obj (docs s a)) key
      else if dict_contains (d_defaults (docs s a)) key
           then dict_getitem (d_defaults (docs s a)) key
      else Inl KeyError)"

text \<open>
  Python's \<open>==\<close> on values: \<open>True\<close> and \<open>False\<close> are the integers 1 and 0, lists are equal
  element by element, dictionaries when they have the same keys with equal values, in any
  order.  Documents and library objects are compared as they are written here.
\<close>

fun py_eq :: "pyval \<Rightarrow> pyval \<Rightarrow> bool"
  and py_eq_list :: "pyval list \<Rightarrow> pyval list \<Rightarrow> bool"
  and py_eq_items :: "pydict \<Rightarrow> pydict \<Rightarrow> bool" where
  "py_eq (PList xs) w = (case w of PList ys \<Rightarrow> py_eq_list xs ys | _ \<Rightarrow> False)"
| "py_eq (PDict d) w = (case w of PDict e \<Rightarrow> length d = length e \<and> py_eq_items d e | _ \<Rightarrow> False)"
| "py_eq (PBool a) w =
     (case w of PBool b \<Rightarrow> a = b | PInt j \<Rightarrow> (if a then 1 else 0) = j | _ \<Rightarrow> False)"
| "py_eq (PInt i) w =
     (case w of PBool b \<Rightarrow> i = (if b then 1 else 0) | PInt j \<Rightarrow> i = j | _ \<Rightarrow> False)"
| "py_eq v w = (v = w)"
| "py_eq_list [] ys = (ys = [])"
| "py_eq_list (x # xs) ys = (case ys of [] \<Rightarrow> False | y # ys' \<Rightarrow> py_eq x y \<and> py_eq_list xs ys')"
| "py_eq_items [] e = True"
| "py_eq_items ((k, x) # kxs) e =
     (case map_of e k of None \<Rightarrow> False | Some y \<Rightarrow> py_eq x y \<and> py_eq_items kxs e)"

text \<open>
  \<open>Document.__eq__\<close>: \<open>self.id and (self.id == other.id)\<close>.  Python's \<open>and\<close> gives its
  first operand when that is false, else its second.
\<close>

definition Document_eq :: "state \<Rightarrow> nat \<Rightarrow> nat \<Rightarrow> error + pyval" where
  "Document_eq s self other =
     (case Document_id s self of
        Inl e \<Rightarrow> Inl e
      | Inr i \<Rightarrow>
          if \<not> truthy i then Inr i
          else (case Document_id s self of
                  Inl e \<Rightarrow> Inl e
                | Inr i' \<Rightarrow>
                    (case Document_id s other of
                       Inl e \<Rightarrow> Inl e
                     | Inr j \<Rightarrow> Inr (PBool (py_eq i' j)))))"

section \<open>Concrete classes, collections and documents\<close>

text \<open>
  Stand-ins for the library parameters, for running the model on concrete inputs: a
  meta-schema check that accepts every schema, a schema validation that accepts, one that
  rejects, and a \<open>validator\<close> hook that raises nothing.
\<close>

definition accept_schema :: "pydict \<Rightarrow> bool" where
  "accept_schema schema = True"

definition accept_value :: "pydict \<Rightarrow> bool" where
  "accept_value v = True"

definition reject_value :: "pydict \<Rightarrow> bool" where
  "reject_value v = False"

definition no_complaint :: "pydict \<Rightarrow> error option" where
  "no_complaint v = None"

text \<open>
  A document class \<open>Widget\<close> with two properties, one of them with a default, and the class
  the metaclass makes of it.
\<close>

definition widget_attrs :: class_attrs where
  "widget_attrs =
     \<lparr> a_schema = Some [(''type'', PStr ''object''),
                        (''properties'',
                         PDict [(''name'', PDict [(''type'', PStr ''string'')]),
                                (''color'', PDict [(''type'', PStr ''string''),
                                                   (''default'', PStr ''red'')])])],
       a_definitions = None, a_title = None, a_template = None,
       a_doc = Some ''A widget.'', a_exposed = [] \<rparr>"

definition widget_class :: document_class where
  "widget_class =
     \<lparr> dc_definitions = [], dc_title = PStr ''Widget'',
       dc_schema =
         [(''type'', PStr ''object''),
          (''properties'',
           PDict [(''name'', PDict [(''type'', PStr ''string'')]),
                  (''color'', PDict [(''type'', PStr ''string''), (''default'', PStr ''red'')])]),
          (''title'', PStr ''Widget''), (''description'', PStr ''A widget.''),
          (''methods'', PList []), (''definitions'', PDict []), (''template'', PStr ''{id}'')],
       dc_exposed_methods = [], dc_defaults = [(''color'', PStr ''red'')] \<rparr>"


definition base_class :: document_class where
  "base_class =
     \<lparr> dc_definitions = [(''point'', PDict [(''type'', PStr ''object'')])],
       dc_title = PStr ''Base'',
       dc_schema =
         [(''type'', PStr ''object''),
          (''properties'', PDict [(''name'', PDict [(''type'', PStr ''string'')])]),
          (''title'', PStr ''Base''), (''methods'', PList []),
          (''definitions'', PDict [(''point'', PDict [(''type'', PStr ''object'')])]),
          (''template'', PStr ''{id}'')],
       dc_exposed_methods = [], dc_defaults = [] \<rparr>"





text \<open>
  A collection class \<open>Widgets\<close> for \<open>Widget\<close> documents that declares no primary key, one
  that declares \<open>primary_key = None\<close>, and the classes the metaclass makes of them.
\<close>

definition widgets_attrs :: collection_attrs where
  "widgets_attrs =
     \<lparr> ca_definitions = None, ca_primary_key = None,
       ca_document_class = Some (Some widget_class), ca_exposed = [] \<rparr>"

definition widgets_class :: collection_class where
  "widgets_class =
     \<lparr> cc_abstract = False,
       cc_schema = Some
         [(''type'', PStr ''object''),
          (''properties'',
           PDict [(''name'', PDict [(''type'', PStr ''string'')]),
                  (''color'', PDict [(''type'', PStr ''string''), (''default'', PStr ''red'')])]),
          (''title'', PStr ''Widget''), (''description'', PStr ''A widget.''),
          (''methods'', PList []), (''definitions'', PDict []), (''template'', PStr ''{id}''),
          (''documentMethods'', PList [])],
       cc_primary_key = PStr ''id'', cc_definitions = [], cc_exposed_methods = [] \<rparr>"

definition keyless_attrs :: collection_attrs where
  "keyless_attrs =
     \<lparr> ca_definitions = None, ca_primary_key = Some PNone,
       ca_document_class = Some (Some widget_class), ca_exposed = [] \<rparr>"

definition keyless_class :: collection_class where
  "keyless_class =
     \<lparr> cc_abstract = False,
       cc_schema = Some
         [(''type'', PStr ''object''),
          (''properties'',
           PDict [(''name'', PDict [(''type'', PStr ''string'')]),
                  (''color'', PDict [(''type'', PStr ''string''), (''default'', PStr ''red'')]),
                  (''id'', id_property)]),
          (''title'', PStr ''Widget''), (''description'', PStr ''A widget.''),
          (''methods'', PList []), (''definitions'', PDict []), (''template'', PStr ''{id}''),
          (''documentMethods'', PList [])],
       cc_primary_key = PNone, cc_definitions = [], cc_exposed_methods = [] \<rparr>"

text \<open>
  A collection instance for widgets, a state with no document and no row, and a state with
  one unsaved widget document at address 0 that has a name and no color.
\<close>

definition widgets :: collection where
  "widgets =
     \<lparr> c_name = ''widgets'', c_url = ''http://localhost:5000/shop/widgets'',
       c_primary_key = ''id'', c_specials = [], c_schema_valid = accept_value,
       c_validator = no_complaint \<rparr>"

definition blank_document :: document where
  "blank_document =
     \<lparr> d_collection = widgets, d_defaults = [], d_processors = [], d_saved = False,
       d_url = None, d_obj = [] \<rparr>"

definition empty_state :: state where
  "empty_state = \<lparr> docs = (\<lambda>a. blank_document), next_doc = 0, tables = (\<lambda>t. []) \<rparr>"

definition bolt_state :: state where
  "bolt_state =
     \<lparr> docs = (\<lambda>a. blank_document)
                (0 := \<lparr> d_collection = widgets, d_defaults = [(''color'', PStr ''red'')],
                         d_processors = [], d_saved = False, d_url = None,
                         d_obj = [(''name'', PStr ''bolt'')] \<rparr>),
       next_doc = 1, tables = (\<lambda>t. []) \<rparr>"

text \<open>
  The run behind the parent and child example: the state after an unsaved document \<open>nut\<close>
  was made (address 0), and the state after a second unsaved document was made whose
  property \<open>part\<close> is the first one (address 1).
\<close>

definition nut_state :: state where
  "nut_state =
     \<lparr> docs = (\<lambda>a. blank_document)
                (0 := \<lparr> d_collection = widgets, d_defaults = [], d_processors = [],
                         d_saved = False, d_url = Some ''http://localhost:5000/shop/widgets/c1'',
                         d_obj = [(''id'', PStr ''c1''), (''name'', PStr ''nut'')] \<rparr>),
       next_doc = 1, tables = (\<lambda>t. []) \<rparr>"

definition linked_state :: state where
  "linked_state =
     \<lparr> docs = (\<lambda>a. blank_document)
                (0 := \<lparr> d_collection = widgets, d_defaults = [], d_processors = [],
                         d_saved = False, d_url = Some ''http://localhost:5000/shop/widgets/c1'',
                         d_obj = [(''id'', PStr ''c1''), (''name'', PStr ''nut'')] \<rparr>,
                 1 := \<lparr> d_collection = widgets, d_defaults = [], d_processors = [],
                         d_saved = False, d_url = Some ''http://localhost:5000/shop/widgets/p1'',
                         d_obj = [(''id'', PStr ''p1''),
                                  (''part'', PStr ''http://localhost:5000/shop/widgets/c1'')] \<rparr>),
       next_doc = 2,
       tables = (\<lambda>t. [])(''widgets'' := [[(''id'', PStr ''c1''), (''name'', PStr ''nut'')]]) \<rparr>"

text \<open>
  A widget collection whose schema validation rejects every value, and a collection of
  places with a special property \<open>location\<close> handled by a Geometry handler, whose schema
  validation rejects too; a state with one unsaved place that holds a geometry object.
\<close>

definition strict_widgets :: collection where
  "strict_widgets = widgets\<lparr>c_schema_valid := reject_value\<rparr>"

definition places :: collection where
  "places =
     \<lparr> c_name = ''places'', c_url = ''http://localhost:5000/shop/places'',
       c_primary_key = ''id'',
       c_specials = [(''location'', Geometry_handler shape_of_geojson (Geometry_init [''Point'']))],
       c_schema_valid = reject_value, c_validator = no_complaint \<rparr>"

definition place_state :: state where
  "place_state =
     \<lparr> docs = (\<lambda>a. blank_document)
                (0 := \<lparr> d_collection = places, d_defaults = [], d_processors = [],
                         d_saved = False, d_url = Some ''http://localhost:5000/shop/places/x'',
                         d_obj = [(''id'', PStr ''x''),
                                  (''location'', PGeom ''Point'' (PList [PInt 1, PInt 2]))] \<rparr>),
       next_doc = 1, tables = (\<lambda>t. []) \<rparr>"

text \<open>
  The run behind the example of a document with the primary key 0: a document made from an
  empty dictionary, the state after \<open>doc['id'] = 0\<close>, and the state after the collection
  saved the document.
\<close>

definition fresh_state :: state where
  "fresh_state =
     \<lparr> docs = (\<lambda>a. blank_document)
                (0 := \<lparr> d_collection = widgets, d_defaults = [], d_processors = [],
                         d_saved = False, d_url = None, d_obj = [] \<rparr>),
       next_doc = 1, tables = (\<lambda>t. []) \<rparr>"

definition zero_state :: state where
  "zero_state =
     \<lparr> docs = (\<lambda>a. blank_document)
                (0 := \<lparr> d_collection = widgets, d_defaults = [], d_processors = [],
                         d_saved = False, d_url = None, d_obj = [(''id'', PInt 0)] \<rparr>),
       next_doc = 1, tables = (\<lambda>t. []) \<rparr>"

definition zero_saved_state :: state where
  "zero_saved_state =
     \<lparr> docs = (\<lambda>a. blank_document)
                (0 := \<lparr> d_collection = widgets, d_defaults = [], d_processors = [],
                         d_saved = True, d_url = None, d_obj = [(''id'', PInt 0)] \<rparr>),
       next_doc = 1, tables = (\<lambda>t. [])(''widgets'' := [[(''id'', PInt 0)]]) \<rparr>"

section \<open>Resolving references (document.py)\<close>

text \<open>
  The registry of the older module: a collection with its address, primary key, special
  properties and the rows of its table by key; an application with its collections by
  slug; the suite with its base address and its applications by slug.
\<close>

record old_collection =
  oc_url :: string
  oc_primary_key :: string
  oc_specials :: "(string \<times> handler) list"
  oc_rows :: "(string \<times> pydict) list"

record application =
  app_collections :: "(string \<times> old_collection) list"













section \<open>Facts about dictionaries\<close>

lemma map_of_dict_setitem: "map_of (dict_setitem d k v) k' = (if k' = k then Some v else map_of d k')"
  by (simp add: dict_setitem_def update_conv')

lemma keys_dict_setitem: "fst ` set (dict_setitem d k v) = insert k (fst ` set d)"
  by (simp add: dict_setitem_def dom_update)






section \<open>Properties of the value handlers\<close>

lemma str_lower_Point: "str_lower ''Point'' = ''point''"
  by code_simp

lemma str_lower_Polygon: "str_lower ''Polygon'' = ''polygon''"
  by code_simp

lemma py_int_minus_05: "py_int ''-05'' = Inr (- 5)"
  by (simp add: py_int_def str_strip_def is_space_def parse_unsigned_def is_digit_def
      digit_val_def)

lemma py_int_00: "py_int ''00'' = Inr 0"
  by (simp add: py_int_def str_strip_def is_space_def parse_unsigned_def is_digit_def
      digit_val_def)

text \<open>
  C4.  A stored time value with time zone \<open>-05:00\<close>: \<open>from_rql_tz\<close> takes the sign from the
  first character and then multiplies it with an hour count that \<open>int('-05')\<close> has already
  made negative, so the offset it computes is +300 minutes, where the stored offset is -300.
  The conversion of the stored value then stops at \<open>timezone(offset)\<close>, which is given an
  integer.
\<close>

theorem from_rql_tz_minus_five_hours:
  "from_rql_tz ''-05:00'' = Inr 300
   \<and> Time_to_python_repr parse_date (PReqlTime ts ''-05:00'' isostr) = Inl TypeError"
  by (simp add: from_rql_tz_def py_int_minus_05 py_int_00)

text \<open>
  C6.  A Geometry handler built with the allow-list \<open>{"Point"}\<close>: every dictionary whose
  \<open>type\<close> is \<open>"Polygon"\<close> is refused with \<open>ValidationError\<close> on its way to the storage
  shape; the point \<open>{"type": "Point", "coordinates": [1, 2]}\<close> is accepted and wrapped as
  \<open>r.geojson\<close> of the unchanged value, and its wire shape has \<open>type == "Point"\<close>.
\<close>

theorem Geometry_allow_list_Point:
  "(\<forall>v. map_of v ''type'' = Some (PStr ''Polygon'') \<longrightarrow>
        Geometry_to_rql_repr (Geometry_init [''Point'']) (PDict v) = Inl ValidationError)
   \<and> Geometry_to_rql_repr (Geometry_init [''Point''])
        (PDict [(''type'', PStr ''Point''), (''coordinates'', PList [PInt 1, PInt 2])])
      = Inr (PReqlGeojson
               (PDict [(''type'', PStr ''Point''), (''coordinates'', PList [PInt 1, PInt 2])]))
   \<and> py_getitem
        (Geometry_to_json_repr
           (PDict [(''type'', PStr ''Point''), (''coordinates'', PList [PInt 1, PInt 2])]))
        ''type''
      = Inr (PStr ''Point'')"
  by (simp add: Geometry_to_rql_repr_def Geometry_init_def dict_getitem_def
      str_lower_Point str_lower_Polygon)

theorem Geometry_allow_list_Point_witness:
  "map_of [(''type'', PStr ''Polygon''),
           (''coordinates'', PList [PList [PList [PInt 0, PInt 0], PList [PInt 1, PInt 0],
                                           PList [PInt 1, PInt 1], PList [PInt 0, PInt 0]]])]
     ''type'' = Some (PStr ''Polygon'')
   \<and> Geometry_to_rql_repr (Geometry_init [''Point''])
        (PDict [(''type'', PStr ''Polygon''),
                (''coordinates'', PList [PList [PList [PInt 0, PInt 0], PList [PInt 1, PInt 0],
                                                PList [PInt 1, PInt 1], PList [PInt 0, PInt 0]]])])
      = Inl ValidationError"
  using Geometry_allow_list_Point by simp





section \<open>Properties of classes and schemas\<close>

lemmas run_defs = DocumentMetaclass_def DocumentMetaclass_new_def DocumentMetaclass_init_def
  inherit_base_def as_base_def class_defaults_def merge_exposed_def dict_update_def
  dict_setitem_def dict_contains_def dict_getitem_def default_schema_def Let_def

lemma widget_class_created: "DocumentMetaclass id ''Widget'' [] widget_attrs = Inr widget_class"
  by (simp add: run_defs widget_attrs_def widget_class_def)




lemmas coll_defs = CollectionMetaclass_def CollectionMetaclass_new_def CollectionMetaclass_init_def
  merge_exposed_def dict_update_def dict_setitem_def dict_contains_def dict_getitem_def Let_def
  Collection_attrs_def accept_schema_def

lemma widgets_class_created:
  "CollectionMetaclass accept_schema [] Collection_attrs widgets_attrs = Inr widgets_class"
  by (simp add: coll_defs widgets_attrs_def widgets_class_def widget_class_def)

lemma keyless_class_created:
  "CollectionMetaclass accept_schema [] Collection_attrs keyless_attrs = Inr keyless_class"
  by (simp add: coll_defs keyless_attrs_def keyless_class_def widget_class_def)

lemma collect_defaults_keys:
  "collect_defaults props = Inr ds \<Longrightarrow> fst ` set ds \<subseteq> fst ` set props"
proof (induction props arbitrary: ds)
  case Nil
  then show ?case by simp
next
  case (Cons kp props)
  obtain k p where kp: "kp = (k, p)" by (cases kp)
  from Cons.prems kp obtain d ds' where
    d: "prop_default p = Inr d" and ds': "collect_defaults props = Inr ds'"
    and ds: "ds = (case d of None \<Rightarrow> ds' | Some v \<Rightarrow> (k, v) # ds')"
    by (auto split: sum.splits)
  from Cons.IH [OF ds'] show ?case
    using ds kp by (auto split: option.splits)
qed

lemma collect_defaults_lookup:
  "collect_defaults props = Inr ds \<Longrightarrow> distinct (map fst props) \<Longrightarrow>
   map_of ds k = (case map_of props k of Some (PDict p) \<Rightarrow> map_of p ''default'' | _ \<Rightarrow> None)"
proof (induction props arbitrary: ds)
  case Nil
  then show ?case by simp
next
  case (Cons kp props)
  obtain k' p where kp: "kp = (k', p)" by (cases kp)
  from Cons.prems(1) kp obtain d ds' where
    d: "prop_default p = Inr d" and ds': "collect_defaults props = Inr ds'"
    and ds: "ds = (case d of None \<Rightarrow> ds' | Some v \<Rightarrow> (k', v) # ds')"
    by (auto split: sum.splits)
  have dist: "distinct (map fst props)" and notin: "k' \<notin> fst ` set props"
    using Cons.prems(2) kp by auto
  have IH: "map_of ds' k = (case map_of props k of Some (PDict p) \<Rightarrow> map_of p ''default'' | _ \<Rightarrow> None)"
    by (rule Cons.IH [OF ds' dist])
  show ?case
  proof (cases "k = k'")
    case True
    have "map_of ds' k' = None"
      using collect_defaults_keys [OF ds'] notin by (auto simp add: map_of_eq_None_iff)
    with True d ds kp show ?thesis
      by (cases p) (auto split: option.splits if_splits)
  next
    case False
    with IH ds kp show ?thesis by (auto split: option.splits)
  qed
qed

lemma DocumentMetaclass_defaults:
  "DocumentMetaclass sc name bases attrs = Inr cls \<Longrightarrow>
   class_defaults (dc_schema cls) = Inr (dc_defaults cls)"
  unfolding DocumentMetaclass_def DocumentMetaclass_init_def
  by (auto simp add: Let_def split: sum.splits)

text \<open>
  C9.  For a document of a class made by the metaclass, whose schema properties form a
  dictionary: \<open>doc[key]\<close> is the value stored under \<open>key\<close> when there is one; else the
  \<open>default\<close> that the schema declares for the property \<open>key\<close>, when it declares one; else
  \<open>KeyError\<close> is raised.
\<close>

theorem Document_getitem_stored_or_default:
  assumes cls: "DocumentMetaclass split_camelcase name bases attrs = Inr cls"
    and props: "map_of (dc_schema cls) ''properties'' = Some (PDict props)"
    and dist: "distinct (map fst props)"
    and doc: "d_defaults (docs s a) = dc_defaults cls"
  shows "Document_getitem s a key =
     (case map_of (d_obj (docs s a)) key of
        Some v \<Rightarrow> Inr v
      | None \<Rightarrow>
          (case map_of props key of
             Some (PDict p) \<Rightarrow>
               (case map_of p ''default'' of Some dv \<Rightarrow> Inr dv | None \<Rightarrow> Inl KeyError)
           | _ \<Rightarrow> Inl KeyError))"
proof -
  have "collect_defaults props = Inr (dc_defaults cls)"
    using DocumentMetaclass_defaults [OF cls] props by (simp add: class_defaults_def)
  from collect_defaults_lookup [OF this dist, of key]
  have lk: "map_of (dc_defaults cls) key =
      (case map_of props key of Some (PDict p) \<Rightarrow> map_of p ''default'' | _ \<Rightarrow> None)" .
  show ?thesis
  proof (cases "map_of (d_obj (docs s a)) key")
    case (Some v)
    then have "dict_contains (d_obj (docs s a)) key"
      by (auto simp add: dict_contains_def dest: map_of_SomeD intro: rev_image_eqI)
    with Some show ?thesis by (simp add: Document_getitem_def dict_getitem_def)
  next
    case None
    then have nc: "\<not> dict_contains (d_obj (docs s a)) key"
      by (simp add: dict_contains_def map_of_eq_None_iff)
    show ?thesis
    proof (cases "map_of (dc_defaults cls) key")
      case N: None
      then have "\<not> dict_contains (dc_defaults cls) key"
        by (simp add: dict_contains_def map_of_eq_None_iff)
      with nc None N lk doc show ?thesis
        by (auto simp add: Document_getitem_def split: option.splits pyval.splits)
    next
      case S: (Some dv)
      then have "dict_contains (dc_defaults cls) key"
        by (auto simp add: dict_contains_def dest: map_of_SomeD intro: rev_image_eqI)
      with nc None S lk doc show ?thesis
        by (auto simp add: Document_getitem_def dict_getitem_def split: option.splits pyval.splits)
    qed
  qed
qed

theorem Document_getitem_stored_or_default_witness:
  "DocumentMetaclass id ''Widget'' [] widget_attrs = Inr widget_class
   \<and> d_defaults (docs bolt_state 0) = dc_defaults widget_class
   \<and> Document_getitem bolt_state 0 ''name'' = Inr (PStr ''bolt'')
   \<and> Document_getitem bolt_state 0 ''color'' = Inr (PStr ''red'')
   \<and> Document_getitem bolt_state 0 ''size'' = Inl KeyError"
proof -
  have props: "map_of (dc_schema widget_class) ''properties''
      = Some (PDict [(''name'', PDict [(''type'', PStr ''string'')]),
                     (''color'', PDict [(''type'', PStr ''string''),
                                        (''default'', PStr ''red'')])])"
    by (simp add: widget_class_def)
  have dist: "distinct (map fst [(''name'', PDict [(''type'', PStr ''string'')]),
                     (''color'', PDict [(''type'', PStr ''string''),
                                        (''default'', PStr ''red'')])])"
    by simp
  have doc: "d_defaults (docs bolt_state 0) = dc_defaults widget_class"
    by (simp add: bolt_state_def widget_class_def)
  have obj: "d_obj (docs bolt_state 0) = [(''name'', PStr ''bolt'')]"
    by (simp add: bolt_state_def)
  note g = Document_getitem_stored_or_default [OF widget_class_created props dist doc]
  show ?thesis
    using g [of "''name''"] g [of "''color''"] g [of "''size''"] widget_class_created doc
    by (simp add: obj)
qed









lemma id_after_setitem:
  "py_setitem props ''id'' v = Inr props' \<Longrightarrow>
   py_contains props' ''id'' = Inr True \<and> py_getitem props' ''id'' = Inr v"
  by (cases props)
     (auto simp add: dict_contains_def keys_dict_setitem dict_getitem_def map_of_dict_setitem)

lemma synthesized_id:
  assumes c: "py_contains props ''id'' = Inr False"
    and s: "(if \<not> truthy pk then py_setitem props ''id'' v else Inr props) = Inr props'"
  shows "py_contains props' ''id'' = Inr (\<not> truthy pk)
         \<and> (\<not> truthy pk \<longrightarrow> py_getitem props' ''id'' = Inr v)"
proof (cases "truthy pk")
  case True
  with c s show ?thesis by simp
next
  case False
  with s have "py_setitem props ''id'' v = Inr props'" by simp
  from id_after_setitem [OF this] False show ?thesis by simp
qed

lemma CollectionMetaclass_init_concrete:
  assumes r: "CollectionMetaclass_init check_schema bases inh attrs definitions = Inr cls"
    and na: "\<not> cc_abstract cls"
  shows "\<exists>dc dprops props.
      (case ca_document_class attrs of Some c \<Rightarrow> c | None \<Rightarrow> inh_document_class inh) = Some dc
      \<and> map_of (dc_schema dc) ''properties'' = Some dprops
      \<and> py_contains dprops ''id'' = Inr False
      \<and> (if \<not> truthy (cc_primary_key cls) then py_setitem dprops ''id'' id_property
          else Inr dprops) = Inr props
      \<and> cc_primary_key cls
          = (case ca_primary_key attrs of Some v \<Rightarrow> v | None \<Rightarrow> inh_primary_key inh)
      \<and> (\<exists>schema. cc_schema cls = Some schema \<and> map_of schema ''properties'' = Some props)"
proof (cases "case ca_document_class attrs of Some c \<Rightarrow> c | None \<Rightarrow> inh_document_class inh")
  case None
  with r na show ?thesis
    by (auto simp add: CollectionMetaclass_init_def Let_def)
next
  case (Some dc)
  define pk where "pk = (case ca_primary_key attrs of Some v \<Rightarrow> v | None \<Rightarrow> inh_primary_key inh)"
  from r Some obtain dprops where dp: "map_of (dc_schema dc) ''properties'' = Some dprops"
    by (cases "map_of (dc_schema dc) ''properties''")
       (auto simp add: CollectionMetaclass_init_def Let_def dict_getitem_def)
  from r Some dp have c: "py_contains dprops ''id'' = Inr False"
    by (cases "py_contains dprops ''id''")
       (auto simp add: CollectionMetaclass_init_def Let_def dict_getitem_def split: if_splits)
  from r Some dp c obtain props where
    p: "(if \<not> truthy pk then py_setitem dprops ''id'' id_property else Inr dprops) = Inr props"
    unfolding pk_def
    by (cases "if \<not> truthy (case ca_primary_key attrs of Some v \<Rightarrow> v | None \<Rightarrow> inh_primary_key inh)
               then py_setitem dprops ''id'' id_property else Inr dprops")
       (auto simp add: CollectionMetaclass_init_def Let_def dict_getitem_def)
  from r Some dp c p have
    "cc_primary_key cls = pk
     \<and> (\<exists>schema. cc_schema cls = Some schema \<and> map_of schema ''properties'' = Some props)"
    unfolding pk_def
    by (auto simp add: CollectionMetaclass_init_def Let_def dict_getitem_def map_of_dict_setitem
        split: if_splits)
  with Some dp c p show ?thesis unfolding pk_def by auto
qed

text \<open>
  C8, as the claim states it, fails on the collection class \<open>Widgets\<close>, which declares no
  primary key: it is registered, and its composed schema has the two properties of the
  document class and no \<open>id\<close> property.
\<close>

theorem no_primary_key_counterexample:
  "ca_primary_key widgets_attrs = None
   \<and> CollectionMetaclass accept_schema [] Collection_attrs widgets_attrs = Inr widgets_class
   \<and> map_of (the (cc_schema widgets_class)) ''properties''
       = Some (PDict [(''name'', PDict [(''type'', PStr ''string'')]),
                      (''color'', PDict [(''type'', PStr ''string''),
                                         (''default'', PStr ''red'')])])"
  by (simp add: widgets_class_created) (simp add: widgets_attrs_def widgets_class_def)

text \<open>
  C8, amended.  For every collection class that is registered with a document class of its
  own: the schema of the document class declares no property \<open>id\<close> (the metaclass refuses
  it with \<open>CollectionException\<close>, whatever the primary key); the composed schema has a
  property \<open>id\<close> exactly when the primary key of the class is a false value (\<open>None\<close>, the
  empty string), and then it is the synthesized string property.  The primary key is the
  one the class declares, else the inherited one; a class that declares none under
  \<open>Collection\<close> inherits \<open>"id"\<close>, and nothing is synthesized for it.  The metaclass of
  document.py does the same, with the property \<open>{"type": "string"}\<close>.
\<close>

theorem collection_schema_id_property:
  "(CollectionMetaclass check_schema bases inh attrs = Inr cls \<and> \<not> cc_abstract cls
     \<longrightarrow> (\<exists>dc dprops schema props.
           (case ca_document_class attrs of Some c \<Rightarrow> c | None \<Rightarrow> inh_document_class inh)
             = Some dc
           \<and> map_of (dc_schema dc) ''properties'' = Some dprops
           \<and> py_contains dprops ''id'' = Inr False
           \<and> cc_schema cls = Some schema
           \<and> map_of schema ''properties'' = Some props
           \<and> py_contains props ''id'' = Inr (\<not> truthy (cc_primary_key cls))
           \<and> (\<not> truthy (cc_primary_key cls) \<longrightarrow> py_getitem props ''id'' = Inr id_property)
           \<and> cc_primary_key cls
               = (case ca_primary_key attrs of Some v \<Rightarrow> v | None \<Rightarrow> inh_primary_key inh)
           \<and> (ca_primary_key attrs = None \<and> inh_primary_key inh = PStr ''id''
                \<longrightarrow> py_contains props ''id'' = Inr False)))
   \<and> (CollectionMetaclass_init_old check_schema name slug document_schema doc primary_key
         application = Inr (old_schema, registry)
     \<longrightarrow> (\<exists>props. map_of old_schema ''properties'' = Some props
           \<and> py_contains props ''id'' = Inr (\<not> truthy primary_key)
           \<and> (\<not> truthy primary_key
                \<longrightarrow> py_getitem props ''id'' = Inr (PDict [(''type'', PStr ''string'')]))))"
proof (intro conjI impI)
  assume a: "CollectionMetaclass check_schema bases inh attrs = Inr cls \<and> \<not> cc_abstract cls"
  then have r: "CollectionMetaclass_init check_schema bases inh attrs
                  (CollectionMetaclass_new bases attrs) = Inr cls"
    and na: "\<not> cc_abstract cls"
    by (simp_all add: CollectionMetaclass_def)
  from CollectionMetaclass_init_concrete [OF r na] obtain dc dprops props schema where
    dc: "(case ca_document_class attrs of Some c \<Rightarrow> c | None \<Rightarrow> inh_document_class inh) = Some dc"
    and dp: "map_of (dc_schema dc) ''properties'' = Some dprops"
    and c: "py_contains dprops ''id'' = Inr False"
    and p: "(if \<not> truthy (cc_primary_key cls) then py_setitem dprops ''id'' id_property
          else Inr dprops) = Inr props"
    and pk: "cc_primary_key cls
          = (case ca_primary_key attrs of Some v \<Rightarrow> v | None \<Rightarrow> inh_primary_key inh)"
    and sc: "cc_schema cls = Some schema" "map_of schema ''properties'' = Some props"
    by blast
  from synthesized_id [OF c p]
  have s: "py_contains props ''id'' = Inr (\<not> truthy (cc_primary_key cls))"
    "\<not> truthy (cc_primary_key cls) \<longrightarrow> py_getitem props ''id'' = Inr id_property"
    by simp_all
  have "ca_primary_key attrs = None \<and> inh_primary_key inh = PStr ''id''
          \<longrightarrow> py_contains props ''id'' = Inr False"
    using s(1) pk by auto
  with dc dp c sc s pk
  show "\<exists>dc dprops schema props.
           (case ca_document_class attrs of Some c \<Rightarrow> c | None \<Rightarrow> inh_document_class inh)
             = Some dc
           \<and> map_of (dc_schema dc) ''properties'' = Some dprops
           \<and> py_contains dprops ''id'' = Inr False
           \<and> cc_schema cls = Some schema
           \<and> map_of schema ''properties'' = Some props
           \<and> py_contains props ''id'' = Inr (\<not> truthy (cc_primary_key cls))
           \<and> (\<not> truthy (cc_primary_key cls) \<longrightarrow> py_getitem props ''id'' = Inr id_property)
           \<and> cc_primary_key cls
               = (case ca_primary_key attrs of Some v \<Rightarrow> v | None \<Rightarrow> inh_primary_key inh)
           \<and> (ca_primary_key attrs = None \<and> inh_primary_key inh = PStr ''id''
                \<longrightarrow> py_contains props ''id'' = Inr False)"
    by blast
next
  assume r: "CollectionMetaclass_init_old check_schema name slug document_schema doc primary_key
         application = Inr (old_schema, registry)"
  define schema1 where "schema1 =
            (if \<not> dict_contains document_schema ''description''
             then dict_setitem document_schema ''description''
                    (PStr (case doc of
                             Some d \<Rightarrow> if d \<noteq> [] then d else ''No description provided''
                           | None \<Rightarrow> ''No description provided''))
             else document_schema)"
  from r obtain dprops where dp: "map_of schema1 ''properties'' = Some dprops"
    unfolding CollectionMetaclass_init_old_def Let_def schema1_def [symmetric]
    by (cases "map_of schema1 ''properties''") (auto simp add: dict_getitem_def)
  from r dp have c: "py_contains dprops ''id'' = Inr False"
    unfolding CollectionMetaclass_init_old_def Let_def schema1_def [symmetric]
    by (cases "py_contains dprops ''id''") (auto simp add: dict_getitem_def split: if_splits)
  from r dp c obtain props where
    p: "(if \<not> truthy primary_key then py_setitem dprops ''id'' (PDict [(''type'', PStr ''string'')])
         else Inr dprops) = Inr props"
    unfolding CollectionMetaclass_init_old_def Let_def schema1_def [symmetric]
    by (cases "if \<not> truthy primary_key
               then py_setitem dprops ''id'' (PDict [(''type'', PStr ''string'')])
               else Inr dprops")
       (auto simp add: dict_getitem_def)
  from r dp c p have "old_schema = dict_setitem schema1 ''properties'' props"
    unfolding CollectionMetaclass_init_old_def Let_def schema1_def [symmetric]
    by (auto simp add: dict_getitem_def split: if_splits option.splits sum.splits)
  then have "map_of old_schema ''properties'' = Some props"
    by (simp add: map_of_dict_setitem)
  with synthesized_id [OF c p]
  show "\<exists>props. map_of old_schema ''properties'' = Some props
           \<and> py_contains props ''id'' = Inr (\<not> truthy primary_key)
           \<and> (\<not> truthy primary_key
                \<longrightarrow> py_getitem props ''id'' = Inr (PDict [(''type'', PStr ''string'')]))"
    by simp
qed

theorem collection_schema_id_property_witness:
  "CollectionMetaclass accept_schema [] Collection_attrs keyless_attrs = Inr keyless_class
   \<and> \<not> cc_abstract keyless_class
   \<and> \<not> truthy (cc_primary_key keyless_class)
   \<and> (\<exists>schema props. cc_schema keyless_class = Some schema
         \<and> map_of schema ''properties'' = Some props
         \<and> py_contains props ''id'' = Inr True
         \<and> py_getitem props ''id'' = Inr id_property)
   \<and> CollectionMetaclass_init_old accept_schema ''widgets'' ''widgets'' default_schema None PNone
         (Some [])
       = Inr ([(''type'', PStr ''object''),
               (''properties'', PDict [(''id'', PDict [(''type'', PStr ''string'')])]),
               (''description'', PStr ''No description provided'')],
              [(''widgets'', ''widgets'')])
   \<and> (\<exists>props. map_of [(''type'', PStr ''object''),
                         (''properties'', PDict [(''id'', PDict [(''type'', PStr ''string'')])]),
                         (''description'', PStr ''No description provided'')] ''properties''
                  = Some props
         \<and> py_contains props ''id'' = Inr True
         \<and> py_getitem props ''id'' = Inr (PDict [(''type'', PStr ''string'')]))"
proof -
  have na: "\<not> cc_abstract keyless_class" and pk: "\<not> truthy (cc_primary_key keyless_class)"
    by (simp_all add: keyless_class_def)
  have old: "CollectionMetaclass_init_old accept_schema ''widgets'' ''widgets'' default_schema
         None PNone (Some [])
       = Inr ([(''type'', PStr ''object''),
               (''properties'', PDict [(''id'', PDict [(''type'', PStr ''string'')])]),
               (''description'', PStr ''No description provided'')],
              [(''widgets'', ''widgets'')])"
    by (simp add: CollectionMetaclass_init_old_def register_collection_def default_schema_def
        dict_contains_def dict_setitem_def dict_getitem_def accept_schema_def Let_def)
  note inst = collection_schema_id_property
    [of accept_schema "[]" Collection_attrs keyless_attrs keyless_class
        "''widgets''" "''widgets''" default_schema None PNone "Some []"
        "[(''type'', PStr ''object''),
          (''properties'', PDict [(''id'', PDict [(''type'', PStr ''string'')])]),
          (''description'', PStr ''No description provided'')]"
        "[(''widgets'', ''widgets'')]"]
  from inst keyless_class_created na
  have "\<exists>schema props. cc_schema keyless_class = Some schema
         \<and> map_of schema ''properties'' = Some props
         \<and> py_contains props ''id'' = Inr (\<not> truthy (cc_primary_key keyless_class))
         \<and> (\<not> truthy (cc_primary_key keyless_class)
              \<longrightarrow> py_getitem props ''id'' = Inr id_property)"
    by blast
  with pk have new: "\<exists>schema props. cc_schema keyless_class = Some schema
         \<and> map_of schema ''properties'' = Some props
         \<and> py_contains props ''id'' = Inr True
         \<and> py_getitem props ''id'' = Inr id_property"
    by simp
  from inst old
  have "\<exists>props. map_of [(''type'', PStr ''object''),
                         (''properties'', PDict [(''id'', PDict [(''type'', PStr ''string'')])]),
                         (''description'', PStr ''No description provided'')] ''properties''
                  = Some props
         \<and> py_contains props ''id'' = Inr (\<not> truthy PNone)
         \<and> (\<not> truthy PNone
               \<longrightarrow> py_getitem props ''id'' = Inr (PDict [(''type'', PStr ''string'')]))"
    by blast
  then have old': "\<exists>props. map_of [(''type'', PStr ''object''),
                         (''properties'', PDict [(''id'', PDict [(''type'', PStr ''string'')])]),
                         (''description'', PStr ''No description provided'')] ''properties''
                  = Some props
         \<and> py_contains props ''id'' = Inr True
         \<and> py_getitem props ''id'' = Inr (PDict [(''type'', PStr ''string'')])"
    by simp
  from keyless_class_created na pk new old old' show ?thesis by blast
qed

section \<open>Properties of documents at run time\<close>

lemmas runtime_defs = Document_init_def reference_def Document_id_def Document_url_def
  Document_save_def Collection_save_def save_value_def write_back_def set_obj_def set_saved_def
  set_url_def Document_setitem_def Collection_len_def dict_setitem_def dict_getitem_def dict_contains_def
  widgets_def empty_state_def blank_document_def accept_value_def no_complaint_def Let_def

subsection \<open>Saving through \<open>Document.save\<close> and the saved flag\<close>

text \<open>
  \<open>Document.save\<close> hands the dictionary \<open>self.obj\<close> to \<open>Collection.save\<close>, which marks only
  \<open>Document\<close> instances as saved.  So neither \<open>Document.save\<close> nor \<open>_reference\<close> changes the
  saved flag of any document.
\<close>

lemma save_value_AObjOf_saved:
  "save_value self s (AObjOf a) = (r, s') \<Longrightarrow> d_saved (docs s' b) = d_saved (docs s b)"
  by (auto simp add: save_value_def write_back_def set_obj_def Let_def
      split: option.splits if_splits)

lemma Document_save_saved:
  assumes "Document_save s a = (r, s')"
  shows "d_saved (docs s' b) = d_saved (docs s b)"
proof (cases "save_value (d_collection (docs s a)) s (AObjOf a)")
  case (Pair r1 s1)
  from save_value_AObjOf_saved [OF Pair] have "d_saved (docs s1 b) = d_saved (docs s b)" .
  with assms Pair show ?thesis
    by (cases r1) (auto simp add: Document_save_def Collection_save_def)
qed

lemma reference_saved:
  assumes "reference s v = (r, s')"
  shows "d_saved (docs s' b) = d_saved (docs s b)"
proof (cases v)
  case (PDoc a)
  show ?thesis
  proof (cases "Document_save s a")
    case (Pair r1 s1)
    from Document_save_saved [OF Pair] have "d_saved (docs s1 b) = d_saved (docs s b)" .
    with assms PDoc Pair show ?thesis
      by (cases r1) (auto simp add: reference_def split: sum.splits if_splits)
  qed
qed (use assms in \<open>auto simp add: reference_def\<close>)

lemma nut_created:
  "Document_init empty_state [(''id'', PStr ''c1''), (''name'', PStr ''nut'')] widgets [] [] False
   = (Inr 0, nut_state)"
  by (simp add: runtime_defs nut_state_def)

lemma parent_created:
  "Document_init nut_state [(''id'', PStr ''p1''), (''part'', PDoc 0)] widgets [] [] False
   = (Inr 1, linked_state)"
  by (simp add: runtime_defs nut_state_def linked_state_def fun_upd_twist)

text \<open>
  C2.  An unsaved child \<open>nut\<close> is made, then an unsaved parent whose property \<open>part\<close> is the
  child, then the parent is saved, with \<open>parent.save()\<close> or with \<open>collection.save(parent)\<close>.
  The parent's stored object holds the child's address as a string under \<open>part\<close>, and the
  child's row is in the table, but the child's saved flag is still false.
\<close>

theorem save_parent_child_not_marked_saved:
  "Document_init empty_state [(''id'', PStr ''c1''), (''name'', PStr ''nut'')] widgets [] [] False
     = (Inr 0, nut_state)
   \<and> Document_init nut_state [(''id'', PStr ''p1''), (''part'', PDoc 0)] widgets [] [] False
     = (Inr 1, linked_state)
   \<and> fst (Document_save linked_state 1) = Inr (PDict [(''inserted'', PInt 1)])
   \<and> d_saved (docs (snd (Document_save linked_state 1)) 0) = False
   \<and> map_of (d_obj (docs (snd (Document_save linked_state 1)) 1)) ''part''
       = Some (PStr ''http://localhost:5000/shop/widgets/c1'')
   \<and> Document_url (snd (Document_save linked_state 1)) 0
       = Inr (PStr ''http://localhost:5000/shop/widgets/c1'')
   \<and> tables (snd (Document_save linked_state 1)) ''widgets''
       = [[(''id'', PStr ''c1''), (''name'', PStr ''nut'')],
          [(''id'', PStr ''p1''), (''part'', PStr ''http://localhost:5000/shop/widgets/c1'')]]
   \<and> fst (Collection_save widgets linked_state [ADocument 1])
       = Inr (PDict [(''inserted'', PInt 1)])
   \<and> d_saved (docs (snd (Collection_save widgets linked_state [ADocument 1])) 0) = False"
  by (simp add: nut_created parent_created) (simp add: runtime_defs linked_state_def)

subsection \<open>A save that fails\<close>

text \<open>
  C3.  Two saves that fail at the schema validation, before the store write.  Saving the
  unsaved document \<open>nut\<close> through its collection raises \<open>ValidationError\<close> and writes no row,
  and leaves the document marked as saved.  Saving the unsaved place with \<open>Document.save\<close>
  raises \<open>ValidationError\<close> and writes no row, and leaves the geometry object under
  \<open>location\<close> replaced by its GeoJSON dictionary.
\<close>

theorem failed_save_changes_document:
  "d_saved (docs nut_state 0) = False
   \<and> fst (Collection_save strict_widgets nut_state [ADocument 0]) = Inl ValidationError
   \<and> tables (snd (Collection_save strict_widgets nut_state [ADocument 0])) ''widgets'' = []
   \<and> d_saved (docs (snd (Collection_save strict_widgets nut_state [ADocument 0])) 0) = True
   \<and> d_obj (docs place_state 0)
       = [(''id'', PStr ''x''), (''location'', PGeom ''Point'' (PList [PInt 1, PInt 2]))]
   \<and> fst (Document_save place_state 0) = Inl ValidationError
   \<and> tables (snd (Document_save place_state 0)) ''places'' = []
   \<and> d_obj (docs (snd (Document_save place_state 0)) 0)
       = [(''id'', PStr ''x''),
          (''location'', PDict [(''type'', PStr ''Point''),
                                (''coordinates'', PList [PInt 1, PInt 2])])]"
  by (simp add: runtime_defs nut_state_def strict_widgets_def reject_value_def place_state_def
      places_def Geometry_handler_def mapping_def)

subsection \<open>Equality of documents\<close>

lemma Document_eq_unsaved: "\<not> d_saved (docs s a) \<Longrightarrow> Document_eq s a b = Inr PNone"
  by (simp add: Document_eq_def Document_id_def)

text \<open>
  C10.  A document is made from an empty dictionary, gets the primary key 0 with
  \<open>doc['id'] = 0\<close> and is saved by its collection.  Its \<open>id\<close> is then 0, which is not \<open>None\<close>
  and equals itself, and still \<open>doc == doc\<close> gives 0, a false value: \<open>self.id and ...\<close>
  stops at every false \<open>id\<close>, not only at \<open>None\<close>.
\<close>

theorem saved_document_with_key_zero_not_equal_to_itself:
  "Document_init empty_state [] widgets [] [] False = (Inr 0, fresh_state)
   \<and> Document_setitem fresh_state 0 ''id'' (PInt 0) = (Inr (), zero_state)
   \<and> Collection_save widgets zero_state [ADocument 0]
       = (Inr (PDict [(''inserted'', PInt 1)]), zero_saved_state)
   \<and> Document_id zero_saved_state 0 = Inr (PInt 0)
   \<and> py_eq (PInt 0) (PInt 0)
   \<and> Document_eq zero_saved_state 0 0 = Inr (PInt 0)
   \<and> \<not> truthy (PInt 0)"
  by (simp add: runtime_defs Document_eq_def fresh_state_def zero_state_def zero_saved_state_def)

section \<open>Properties of reference resolution\<close>





end
